theory Spec2Isabelle
  imports Main "HOL-Library.Sublist"
begin

section \<open>check\_positions\_call.py: the positionsByUser eth\_call script\<close>

text \<open>
  The script has three functions: \<open>build_calldata\<close> (pure string code),
  \<open>post_json\<close> (one HTTP POST through urllib and the json module) and \<open>main\<close>
  (argument intake, the two \<open>try\<close> blocks, printing, the exit status).

  Python's \<open>str\<close> is a sequence of code points. A \<open>string\<close> here is a list of
  \<open>char\<close>, and a \<open>char\<close> stands for the code point \<open>of_char c\<close>, from 0 to 255
  (ASCII and the Latin-1 supplement). \<open>str.lower\<close> and \<open>str.strip\<close> are embedded as
  Python defines them on those code points. Text that the script prints holds the
  arrow U+2192, which is above 255, so printed text is a list of code points
  (\<open>ustr\<close>) and \<open>cp\<close> embeds a \<open>string\<close> into it.
\<close>

subsection \<open>Python's string operations\<close>

definition ord :: "char \<Rightarrow> nat" where
  "ord c = of_char c"

text \<open>
  \<open>str.lower\<close> on one code point below 256: the ASCII capitals and the Latin-1
  capitals U+00C0 to U+00DE (the multiplication sign U+00D7 is not a letter) move up
  by 32; nothing else changes.
\<close>

definition lower_chr :: "char \<Rightarrow> char" where
  "lower_chr c =
     (if (65 \<le> ord c \<and> ord c \<le> 90) \<or> (192 \<le> ord c \<and> ord c \<le> 222 \<and> ord c \<noteq> 215)
      then char_of (ord c + 32) else c)"

definition lower :: "string \<Rightarrow> string" where
  "lower s = map lower_chr s"

text \<open>
  \<open>str.isspace\<close> on one code point below 256: tab, line feed, vertical tab, form
  feed, carriage return, the four separators U+001C to U+001F, space, next line
  U+0085 and no-break space U+00A0.
\<close>

definition isspace :: "char \<Rightarrow> bool" where
  "isspace c =
     ((9 \<le> ord c \<and> ord c \<le> 13) \<or> (28 \<le> ord c \<and> ord c \<le> 32) \<or> ord c = 133 \<or> ord c = 160)"

definition lstrip :: "string \<Rightarrow> string" where
  "lstrip s = dropWhile isspace s"

definition rstrip :: "string \<Rightarrow> string" where
  "rstrip s = rev (dropWhile isspace (rev s))"

definition strip :: "string \<Rightarrow> string" where
  "strip s = rstrip (lstrip s)"

definition startswith :: "string \<Rightarrow> string \<Rightarrow> bool" where
  "startswith s p = (take (length p) s = p)"

definition rjust :: "nat \<Rightarrow> char \<Rightarrow> string \<Rightarrow> string" where
  "rjust width fill s = replicate (width - length s) fill @ s"

subsection \<open>Exceptions\<close>

text \<open>
  The exceptions that the script raises, catches or lets through. \<open>HTTPError\<close>
  carries \<open>code\<close> and \<open>reason\<close>, \<open>URLError\<close> its \<open>reason\<close> as printed,
  \<open>ValueError\<close> its message. \<open>OtherException\<close> is any other exception that the
  libraries raise (a timeout while reading, a body that is not UTF-8).
\<close>

datatype exn =
    ValueError string
  | HTTPError int string
  | URLError string
  | JSONDecodeError
  | TypeError
  | AttributeError
  | KeyError
  | OtherException string

subsection \<open>Constants and the calldata encoder\<close>

definition POSITIONS_SELECTOR :: string where
  "POSITIONS_SELECTOR = ''0x919ddbf0''"

definition DEFAULT_RESOLVER :: string where
  "DEFAULT_RESOLVER = ''0x394Ce45678e0019c0045194a561E2bEd0FCc6Cf0''"

definition build_calldata :: "string \<Rightarrow> exn + string" where
  "build_calldata address =
     (let clean = strip (lower address) in
      if \<not> startswith clean ''0x''
      then Inl (ValueError ''wallet address must start with 0x'')
      else
        let clean = drop 2 clean in
        if length clean \<noteq> 40 \<or> list_ex (\<lambda>c. c \<notin> set ''0123456789abcdef'') clean
        then Inl (ValueError ''wallet address must be 40 hex chars (after 0x)'')
        else Inr (POSITIONS_SELECTOR @ rjust 64 (CHR ''0'') clean))"

subsection \<open>JSON values and the operations the script applies to them\<close>

text \<open>
  What \<open>json.loads\<close> returns: \<open>None\<close>, a bool, an int, a float (kept as its
  literal: the script never looks inside a number), a str, a list, or a dict. A dict is
  an association list in insertion order; \<open>map_of\<close> reads it.
\<close>

datatype json =
    JNull
  | JBool bool
  | JInt int
  | JFloat string
  | JString string
  | JArray "json list"
  | JObject "(string \<times> json) list"

text \<open>\<open>needle in haystack\<close> for two strings: a substring test.\<close>

fun str_contains :: "string \<Rightarrow> string \<Rightarrow> bool" where
  "str_contains needle [] = (needle = [])"
| "str_contains needle (c # cs) =
     (take (length needle) (c # cs) = needle \<or> str_contains needle cs)"

text \<open>
  \<open>key in v\<close> for a string \<open>key\<close>: a dict is asked for the key, a list for an
  element equal to the string, a str for the substring; any other value is not
  iterable and the test raises \<open>TypeError\<close>.
\<close>

fun py_in :: "string \<Rightarrow> json \<Rightarrow> exn + bool" where
  "py_in key (JObject kvs) = Inr (key \<in> set (map fst kvs))"
| "py_in key (JArray xs) = Inr (JString key \<in> set xs)"
| "py_in key (JString s) = Inr (str_contains key s)"
| "py_in key v = Inl TypeError"

text \<open>
  \<open>v[key]\<close> for a string \<open>key\<close>: a dict gives the value or raises
  \<open>KeyError\<close>; a list or a str takes integer indices only, and the other values are
  not subscriptable: \<open>TypeError\<close>.
\<close>

fun py_getitem :: "json \<Rightarrow> string \<Rightarrow> exn + json" where
  "py_getitem (JObject kvs) key =
     (case map_of kvs key of None \<Rightarrow> Inl KeyError | Some v \<Rightarrow> Inr v)"
| "py_getitem v key = Inl TypeError"

text \<open>
  \<open>v.get(key)\<close>: only a dict has the method, and a missing key gives \<open>None\<close>;
  on any other value the attribute lookup raises \<open>AttributeError\<close>.
\<close>

fun py_get :: "json \<Rightarrow> string \<Rightarrow> exn + json" where
  "py_get (JObject kvs) key =
     Inr (case map_of kvs key of None \<Rightarrow> JNull | Some v \<Rightarrow> v)"
| "py_get v key = Inl AttributeError"

subsection \<open>Printed text\<close>

type_synonym ustr = "nat list"

definition cp :: "string \<Rightarrow> ustr" where
  "cp s = map ord s"

text \<open>\<open>str(n)\<close> for an int, as an f-string formats \<open>exc.code\<close>.\<close>

fun str_nat :: "nat \<Rightarrow> string" where
  "str_nat n =
     (if n < 10 then [char_of (48 + n)]
      else str_nat (n div 10) @ [char_of (48 + n mod 10)])"

definition str_int :: "int \<Rightarrow> string" where
  "str_int i = (if i < 0 then CHR ''-'' # str_nat (nat (- i)) else str_nat (nat i))"

text \<open>\<open>print(a, b)\<close> writes its two arguments with one space between them.\<close>

definition print2 :: "ustr \<Rightarrow> ustr \<Rightarrow> ustr" where
  "print2 a b = a @ [32] @ b"

subsection \<open>The transport: \<open>post_json\<close>\<close>

text \<open>
  The libraries and the network are the \<open>world\<close> the script runs in:
  \<open>json_dumps indent v\<close> is \<open>json.dumps(v)\<close> or \<open>json.dumps(v, indent=n)\<close>;
  \<open>json_loads\<close> is \<open>json.loads\<close>, with \<open>None\<close> where the text is not JSON and
  \<open>JSONDecodeError\<close> is raised; \<open>urlopen\<close> is what building the
  \<open>Request\<close>, opening it and reading and decoding the body give: the body, or the
  exception raised on the way.

  \<open>json.dumps\<close> escapes every character outside ASCII, so the UTF-8 encoding of its
  result is the same characters and \<open>req_data\<close> is that string.
\<close>

record http_request =
  req_url :: string
  req_data :: string
  req_headers :: "(string \<times> string) list"
  req_timeout :: nat
  req_unverified :: bool

record world =
  json_dumps :: "nat option \<Rightarrow> json \<Rightarrow> string"
  json_loads :: "string \<Rightarrow> json option"
  urlopen :: "http_request \<Rightarrow> exn + string"

definition make_request :: "world \<Rightarrow> string \<Rightarrow> json \<Rightarrow> bool \<Rightarrow> http_request" where
  "make_request w url payload insecure =
     \<lparr>req_url = url,
      req_data = json_dumps w None payload,
      req_headers = [(''Content-Type'', ''application/json'')],
      req_timeout = 60,
      req_unverified = insecure\<rparr>"

definition post_json :: "world \<Rightarrow> string \<Rightarrow> json \<Rightarrow> bool \<Rightarrow> exn + json" where
  "post_json w url payload insecure =
     (case urlopen w (make_request w url payload insecure) of
        Inl e \<Rightarrow> Inl e
      | Inr body \<Rightarrow>
          (case json_loads w body of
             None \<Rightarrow> Inl JSONDecodeError
           | Some v \<Rightarrow> Inr v))"

subsection \<open>\<open>main\<close>\<close>

text \<open>
  The parsed command line. \<open>--rpc-url\<close> and \<open>--wallet\<close> are required;
  \<open>--resolver\<close> may be absent, and then \<open>args.resolver\<close> is the default.
\<close>

record cli =
  rpc_url :: string
  wallet :: string
  resolver_flag :: "string option"
  insecure :: bool

definition resolver :: "cli \<Rightarrow> string" where
  "resolver args = (case resolver_flag args of None \<Rightarrow> DEFAULT_RESOLVER | Some r \<Rightarrow> r)"

text \<open>
  One run of \<open>main\<close>: how it ended (the value returned, or the exception that left
  it), the text of each \<open>print\<close> to standard output and to standard error in
  order, and the requests handed to \<open>urlopen\<close>.
\<close>

datatype outcome = Returned int | Raised exn

record run =
  status :: outcome
  stdout :: "ustr list"
  stderr :: "ustr list"
  requests :: "http_request list"

text \<open>
  The first \<open>try\<close> catches \<open>ValueError\<close>, the only exception
  \<open>build_calldata\<close> raises. The second catches \<open>HTTPError\<close> and
  \<open>URLError\<close>; every other exception of \<open>post_json\<close>, and every exception
  of the lines after it, leaves \<open>main\<close>.
\<close>

definition main :: "world \<Rightarrow> cli \<Rightarrow> run" where
  "main w args =
     (case build_calldata (wallet args) of
        Inl (ValueError msg) \<Rightarrow>
          \<lparr>status = Returned 1, stdout = [], stderr = [cp ''[error] '' @ cp msg], requests = []\<rparr>
      | Inl exc \<Rightarrow>
          \<lparr>status = Raised exc, stdout = [], stderr = [], requests = []\<rparr>
      | Inr calldata \<Rightarrow>
          let payload = JObject
                [(''jsonrpc'', JString ''2.0''),
                 (''id'', JInt 1),
                 (''method'', JString ''eth_call''),
                 (''params'', JArray
                    [JObject [(''to'', JString (resolver args)), (''data'', JString calldata)],
                     JString ''latest''])];
              echo =
                [print2 (8594 # cp '' RPC URL     :'') (cp (rpc_url args)),
                 print2 (8594 # cp '' Resolver    :'') (cp (resolver args)),
                 print2 (8594 # cp '' Wallet      :'') (cp (wallet args)),
                 print2 (8594 # cp '' Calldata    :'') (cp calldata)];
              sent = [make_request w (rpc_url args) payload (insecure args)]
          in
          (case post_json w (rpc_url args) payload (insecure args) of
             Inl (HTTPError code reason) \<Rightarrow>
               \<lparr>status = Returned 1, stdout = echo,
                stderr = [cp ''[http error] '' @ cp (str_int code) @ [32] @ cp reason],
                requests = sent\<rparr>
           | Inl (URLError reason) \<Rightarrow>
               \<lparr>status = Returned 1, stdout = echo,
                stderr = [cp ''[network error] '' @ cp reason],
                requests = sent\<rparr>
           | Inl exc \<Rightarrow>
               \<lparr>status = Raised exc, stdout = echo, stderr = [], requests = sent\<rparr>
           | Inr response \<Rightarrow>
               let shown = echo @
                     [10 # cp ''RPC response:'', cp (json_dumps w (Some 2) response)]
               in
               (case py_in ''error'' response of
                  Inl exc \<Rightarrow>
                    \<lparr>status = Raised exc, stdout = shown, stderr = [], requests = sent\<rparr>
                | Inr False \<Rightarrow>
                    \<lparr>status = Returned 0, stdout = shown, stderr = [], requests = sent\<rparr>
                | Inr True \<Rightarrow>
                    (case py_getitem response ''error'' of
                       Inl exc \<Rightarrow>
                         \<lparr>status = Raised exc, stdout = shown, stderr = [], requests = sent\<rparr>
                     | Inr err \<Rightarrow>
                         (case py_get err ''data'' of
                            Inl exc \<Rightarrow>
                              \<lparr>status = Raised exc, stdout = shown, stderr = [],
                               requests = sent\<rparr>
                          | Inr (JString data) \<Rightarrow>
                              \<lparr>status = Returned 0,
                               stdout = shown @ [10 # cp ''Decoded error data: '' @ cp data],
                               stderr = [], requests = sent\<rparr>
                          | Inr data \<Rightarrow>
                              \<lparr>status = Returned 0, stdout = shown, stderr = [],
                               requests = sent\<rparr>)))))"

text \<open>
  \<open>raise SystemExit(main())\<close>: the process leaves with the value \<open>main\<close>
  returned, and with 1 when an exception left \<open>main\<close>.
\<close>

definition exit_code :: "world \<Rightarrow> cli \<Rightarrow> int" where
  "exit_code w args = (case status (main w args) of Returned n \<Rightarrow> n | Raised exc \<Rightarrow> 1)"

subsection \<open>Vocabulary of the specification\<close>

text \<open>
  A hexadecimal character in either case, and the lower-case form of one, written
  out letter by letter.
\<close>

definition is_hex :: "char \<Rightarrow> bool" where
  "is_hex c = (c \<in> set ''0123456789abcdefABCDEF'')"

definition hex_lower :: "char \<Rightarrow> char" where
  "hex_lower c =
     (if c = CHR ''A'' then CHR ''a'' else if c = CHR ''B'' then CHR ''b''
      else if c = CHR ''C'' then CHR ''c'' else if c = CHR ''D'' then CHR ''d''
      else if c = CHR ''E'' then CHR ''e'' else if c = CHR ''F'' then CHR ''f''
      else c)"

text \<open>The \<open>0x\<close> prefix, accepted in either case.\<close>

definition has_prefix :: "string \<Rightarrow> bool" where
  "has_prefix s = (take 2 s = ''0x'' \<or> take 2 s = ''0X'')"

text \<open>A valid wallet address: the prefix, then exactly 40 hexadecimal characters.\<close>

definition valid_address :: "string \<Rightarrow> bool" where
  "valid_address s = (has_prefix s \<and> length (drop 2 s) = 40 \<and> list_all is_hex (drop 2 s))"

text \<open>
  Two strings differ only in the letter case of their characters when they have the
  same length and, position by position, hold the same character or a capital letter
  and its small letter. The capital letters below 256 are A to Z and U+00C0 to U+00DE
  without the multiplication sign; the small letter is 32 code points above.
\<close>

definition is_capital :: "char \<Rightarrow> bool" where
  "is_capital c = ((65 \<le> ord c \<and> ord c \<le> 90) \<or> (192 \<le> ord c \<and> ord c \<le> 222 \<and> ord c \<noteq> 215))"

definition case_pair :: "char \<Rightarrow> char \<Rightarrow> bool" where
  "case_pair a b = (is_capital a \<and> ord b = ord a + 32)"

definition differ_only_in_case :: "string \<Rightarrow> string \<Rightarrow> bool" where
  "differ_only_in_case s t = list_all2 (\<lambda>a b. a = b \<or> case_pair a b \<or> case_pair b a) s t"

text \<open>
  The three defects of a wallet string that the specification lists: no prefix, a
  body that is not 40 characters long, a character in the body that is not hexadecimal.
\<close>

definition malformed :: "string \<Rightarrow> bool" where
  "malformed s = (\<not> has_prefix s \<or> length (drop 2 s) \<noteq> 40 \<or> list_ex (\<lambda>c. \<not> is_hex c) (drop 2 s))"

text \<open>The JsonRpcEnvelope of the specification, for a \<open>to\<close> and a \<open>data\<close>.\<close>

definition JsonRpcEnvelope :: "string \<Rightarrow> string \<Rightarrow> json" where
  "JsonRpcEnvelope to_address data =
     JObject
       [(''jsonrpc'', JString ''2.0''),
        (''id'', JInt 1),
        (''method'', JString ''eth_call''),
        (''params'', JArray
           [JObject [(''to'', JString to_address), (''data'', JString data)],
            JString ''latest''])]"

text \<open>
  The string at \<open>error.data\<close> of a response, when the response is an object whose
  \<open>error\<close> member is an object whose \<open>data\<close> member is a string.
\<close>

fun error_data :: "json \<Rightarrow> string option" where
  "error_data (JObject kvs) =
     (case map_of kvs ''error'' of
        Some (JObject err) \<Rightarrow>
          (case map_of err ''data'' of Some (JString s) \<Rightarrow> Some s | _ \<Rightarrow> None)
      | _ \<Rightarrow> None)"
| "error_data v = None"

text \<open>
  A response shaped as JSON-RPC 2.0 has it: an object whose \<open>error\<close> member, when
  there is one, is an object.
\<close>

fun rpc_shaped :: "json \<Rightarrow> bool" where
  "rpc_shaped (JObject kvs) =
     (case map_of kvs ''error'' of
        None \<Rightarrow> True
      | Some (JObject err) \<Rightarrow> True
      | Some v \<Rightarrow> False)"
| "rpc_shaped v = False"

text \<open>
  What a run prints to standard output before the request (the RPC URL, the resolver,
  the wallet and the calldata, in this order) and after a response arrived (the
  heading and the response, dumped with an indentation of 2), and the extra line for
  the string at \<open>error.data\<close>.
\<close>

definition echo_lines :: "cli \<Rightarrow> string \<Rightarrow> ustr list" where
  "echo_lines args calldata =
     [8594 # cp '' RPC URL     : '' @ cp (rpc_url args),
      8594 # cp '' Resolver    : '' @ cp (resolver args),
      8594 # cp '' Wallet      : '' @ cp (wallet args),
      8594 # cp '' Calldata    : '' @ cp calldata]"

definition response_lines :: "world \<Rightarrow> json \<Rightarrow> ustr list" where
  "response_lines w response =
     [10 # cp ''RPC response:'', cp (json_dumps w (Some 2) response)]"

definition decoded_line :: "string \<Rightarrow> ustr" where
  "decoded_line s = 10 # cp ''Decoded error data: '' @ cp s"

subsection \<open>Mocked transports\<close>

text \<open>
  The worlds of the specification's test cases: an endpoint that answers every request
  with a body that parses to \<open>v\<close>, one whose body is not JSON, and a transport that
  raises \<open>exc\<close>.
\<close>

definition answering :: "json \<Rightarrow> world" where
  "answering v =
     \<lparr>json_dumps = (\<lambda>indent obj. ''{}''),
      json_loads = (\<lambda>body. Some v),
      urlopen = (\<lambda>req. Inr ''{}'')\<rparr>"

definition garbled :: world where
  "garbled =
     \<lparr>json_dumps = (\<lambda>indent obj. ''{}''),
      json_loads = (\<lambda>body. None),
      urlopen = (\<lambda>req. Inr ''<html>'')\<rparr>"

definition raising :: "exn \<Rightarrow> world" where
  "raising exc =
     \<lparr>json_dumps = (\<lambda>indent obj. ''{}''),
      json_loads = (\<lambda>body. None),
      urlopen = (\<lambda>req. Inl exc)\<rparr>"

text \<open>A command line with the default resolver and TLS verification on.\<close>

definition query :: "string \<Rightarrow> cli" where
  "query address =
     \<lparr>rpc_url = ''https://rpc.example'', wallet = address, resolver_flag = None,
      insecure = False\<rparr>"


section \<open>Properties of the string operations\<close>

lemma ord_inj: "(c = d) = (ord c = ord d)"
  by (simp add: ord_def)

lemma ord_lt: "ord c < 256"
  by (simp add: ord_def)

lemma ord_lower_chr:
  "ord (lower_chr c) =
     (if (65 \<le> ord c \<and> ord c \<le> 90) \<or> (192 \<le> ord c \<and> ord c \<le> 222 \<and> ord c \<noteq> 215)
      then ord c + 32 else ord c)"
  using ord_lt [of c] by (auto simp: lower_chr_def ord_def)

lemma lower_chr_x: "lower_chr c = CHR ''x'' \<longleftrightarrow> c = CHR ''x'' \<or> c = CHR ''X''"
  unfolding ord_inj ord_lower_chr by (auto simp: ord_def)

lemma lower_chr_0: "lower_chr c = CHR ''0'' \<longleftrightarrow> c = CHR ''0''"
  unfolding ord_inj ord_lower_chr by (auto simp: ord_def)

lemma isspace_lower_chr: "isspace (lower_chr c) = isspace c"
  unfolding isspace_def ord_lower_chr by auto

lemma lower_chr_hex_iff: "lower_chr c \<in> set ''0123456789abcdef'' \<longleftrightarrow> is_hex c"
  unfolding is_hex_def by (simp add: ord_inj ord_lower_chr) (auto simp: ord_def)

lemma lower_chr_hex: "is_hex c \<Longrightarrow> lower_chr c = hex_lower c"
  unfolding is_hex_def list.set insert_iff empty_iff
  by (elim disjE; simp add: lower_chr_def ord_def hex_lower_def char_of_eq_iff)

lemma hex_not_space: "is_hex c \<Longrightarrow> \<not> isspace c"
  unfolding is_hex_def isspace_def by (auto simp: ord_def)

lemma lower_chr_idem: "lower_chr (lower_chr c) = lower_chr c"
  unfolding ord_inj ord_lower_chr by auto

lemma strip_lower: "strip (lower s) = lower (strip s)"
proof -
  have sp: "isspace \<circ> lower_chr = isspace"
    by (simp add: fun_eq_iff isspace_lower_chr)
  show ?thesis
    by (simp add: strip_def lstrip_def rstrip_def lower_def dropWhile_map rev_map sp)
qed

lemma startswith_lower:
  "startswith (lower s) ''0x'' \<longleftrightarrow> has_prefix s"
proof (cases s)
  case Nil
  then show ?thesis by (simp add: startswith_def lower_def has_prefix_def)
next
  case (Cons a t)
  then show ?thesis
    by (cases t) (auto simp: startswith_def lower_def has_prefix_def lower_chr_x lower_chr_0)
qed

lemma body_lower:
  "list_ex (\<lambda>c. c \<notin> set ''0123456789abcdef'') (map lower_chr t) \<longleftrightarrow> \<not> list_all is_hex t"
proof (induction t)
  case Nil
  show ?case by (simp only: list.map list_ex_Nil_iff list.pred_inject simp_thms)
next
  case (Cons a t)
  then show ?case
    by (simp only: list.map list_ex_Cons_iff list.pred_inject lower_chr_hex_iff de_Morgan_conj)
qed

lemma map_lower_hex: "list_all is_hex t \<Longrightarrow> map lower_chr t = map hex_lower t"
  by (induction t) (simp_all add: lower_chr_hex)

lemma build_calldata_eq:
  "build_calldata s =
     (if \<not> has_prefix (strip s) then Inl (ValueError ''wallet address must start with 0x'')
      else if length (drop 2 (strip s)) \<noteq> 40 \<or> \<not> list_all is_hex (drop 2 (strip s))
      then Inl (ValueError ''wallet address must be 40 hex chars (after 0x)'')
      else Inr (''0x919ddbf0'' @ replicate 24 (CHR ''0'') @ map hex_lower (drop 2 (strip s))))"
proof -
  have pad: "length t = 40 \<Longrightarrow> list_all is_hex t \<Longrightarrow>
      POSITIONS_SELECTOR @ rjust 64 (CHR ''0'') (map lower_chr t)
        = ''0x919ddbf0'' @ replicate 24 (CHR ''0'') @ map hex_lower t" for t
    by (simp add: rjust_def POSITIONS_SELECTOR_def map_lower_hex)
  have dl: "drop 2 (lower t) = map lower_chr (drop 2 t)" for t
    by (simp add: lower_def drop_map)
  have code: "build_calldata s =
     (if \<not> has_prefix (strip s) then Inl (ValueError ''wallet address must start with 0x'')
      else if length (drop 2 (strip s)) \<noteq> 40 \<or> \<not> list_all is_hex (drop 2 (strip s))
      then Inl (ValueError ''wallet address must be 40 hex chars (after 0x)'')
      else Inr (POSITIONS_SELECTOR @ rjust 64 (CHR ''0'') (map lower_chr (drop 2 (strip s)))))"
    unfolding build_calldata_def Let_def strip_lower startswith_lower dl body_lower length_map
    by (rule refl)
  show ?thesis
  proof (cases "length (drop 2 (strip s)) = 40 \<and> list_all is_hex (drop 2 (strip s))")
    case True
    then have "POSITIONS_SELECTOR @ rjust 64 (CHR ''0'') (map lower_chr (drop 2 (strip s)))
        = ''0x919ddbf0'' @ replicate 24 (CHR ''0'') @ map hex_lower (drop 2 (strip s))"
      using pad by blast
    with True show ?thesis
      unfolding code by simp
  next
    case False
    then show ?thesis
      unfolding code by auto
  qed
qed

lemma strip_id:
  assumes "s \<noteq> []" "\<not> isspace (hd s)" "\<not> isspace (last s)"
  shows "strip s = s"
proof -
  have 1: "dropWhile isspace s = s"
    using assms by (cases s) simp_all
  have 2: "dropWhile isspace (rev s) = rev s"
  proof (cases "rev s")
    case Nil
    then show ?thesis by simp
  next
    case (Cons a t)
    have "hd (rev s) = last s"
      using assms(1) by (simp add: hd_rev)
    with Cons assms(3) have "\<not> isspace a" by simp
    with Cons show ?thesis by simp
  qed
  show ?thesis
    by (simp add: strip_def lstrip_def rstrip_def 1 2)
qed

lemma valid_address_ends:
  assumes "valid_address s"
  shows "s \<noteq> []" and "\<not> isspace (hd s)" and "\<not> isspace (last s)"
proof -
  from assms have "length s - 2 = 40"
    by (simp add: valid_address_def)
  then have len: "length s = 42"
    by arith
  then show "s \<noteq> []" by auto
  from assms len have "hd s = CHR ''0''"
    by (cases s) (auto simp: valid_address_def has_prefix_def)
  then show "\<not> isspace (hd s)"
    by (simp add: isspace_def ord_def)
  have "last s = last (drop 2 s)"
    using len by simp
  moreover have "last (drop 2 s) \<in> set (drop 2 s)"
    using len by (intro last_in_set) auto
  ultimately have "is_hex (last s)"
    using assms by (simp add: valid_address_def list_all_iff)
  then show "\<not> isspace (last s)"
    by (rule hex_not_space)
qed

lemma valid_address_strip: "valid_address s \<Longrightarrow> strip s = s"
  by (intro strip_id valid_address_ends)


lemma case_pair_lower: "case_pair a b \<Longrightarrow> lower_chr a = lower_chr b"
  unfolding case_pair_def is_capital_def ord_inj ord_lower_chr by auto

lemma differ_only_in_case_lower:
  "differ_only_in_case s t \<Longrightarrow> lower s = lower t"
  unfolding differ_only_in_case_def lower_def
  by (induction s t rule: list_all2_induct) (auto dest: case_pair_lower)

lemma build_calldata_lower: "build_calldata s = build_calldata (lower s)"
proof -
  have "lower (lower s) = lower s"
    by (simp add: lower_def lower_chr_idem)
  then show ?thesis
    by (simp add: build_calldata_def)
qed

lemma strip_spaces:
  assumes "valid_address A" "list_all isspace w1" "list_all isspace w2"
  shows "strip (w1 @ A @ w2) = A"
proof -
  note e = valid_address_ends [OF assms(1)]
  have "dropWhile isspace (w1 @ A @ w2) = dropWhile isspace (A @ w2)"
    by (rule dropWhile_append2) (use assms(2) in \<open>simp add: list_all_iff\<close>)
  also have "\<dots> = A @ w2"
    using e(1,2) by (cases A) simp_all
  finally have l: "lstrip (w1 @ A @ w2) = A @ w2"
    by (simp add: lstrip_def)
  have "dropWhile isspace (rev w2 @ rev A) = dropWhile isspace (rev A)"
    by (rule dropWhile_append2) (use assms(3) in \<open>simp add: list_all_iff\<close>)
  also have "\<dots> = rev A"
  proof (cases "rev A")
    case Nil
    then show ?thesis by simp
  next
    case (Cons a t)
    have "hd (rev A) = last A"
      using e(1) by (simp add: hd_rev)
    with Cons e(3) have "\<not> isspace a" by simp
    with Cons show ?thesis by simp
  qed
  finally have "rstrip (A @ w2) = A"
    by (simp add: rstrip_def)
  with l show ?thesis
    by (simp add: strip_def)
qed

section \<open>The calldata encoder\<close>

text \<open>
  C1. For every valid wallet address \<open>A\<close> (the \<open>0x\<close> prefix in either case, then
  exactly 40 hexadecimal characters in any case), \<open>build_calldata A\<close> returns a
  string of length 74 that starts with \<open>0x919ddbf0\<close> and whose last 64 characters
  are the body of \<open>A\<close> in lower case, padded with zeros on the left to 64
  characters. For the address \<open>0x0000000000000000000000000000000000000001\<close> the
  result is \<open>0x919ddbf0\<close>, 63 zeros and \<open>1\<close>.
\<close>

theorem build_calldata_valid:
  "(valid_address A \<longrightarrow>
      (\<exists>r. build_calldata A = Inr r \<and> length r = 74 \<and> take 10 r = ''0x919ddbf0''
         \<and> drop 10 r = replicate (64 - length (drop 2 A)) (CHR ''0'') @ map hex_lower (drop 2 A)))
   \<and> build_calldata ''0x0000000000000000000000000000000000000001''
       = Inr (''0x919ddbf0'' @ replicate 63 (CHR ''0'') @ ''1'')"
proof (intro conjI impI)
  assume v: "valid_address A"
  then have s: "strip A = A"
    by (rule valid_address_strip)
  from v have b: "has_prefix A" "length (drop 2 A) = 40" "list_all is_hex (drop 2 A)"
    by (simp_all add: valid_address_def)
  have r: "build_calldata A = Inr (''0x919ddbf0'' @ replicate 24 (CHR ''0'') @ map hex_lower (drop 2 A))"
    unfolding build_calldata_eq s using b by simp
  have l: "length (map hex_lower (drop 2 A)) = 40"
    using b(2) by simp
  show "\<exists>r. build_calldata A = Inr r \<and> length r = 74 \<and> take 10 r = ''0x919ddbf0''
         \<and> drop 10 r = replicate (64 - length (drop 2 A)) (CHR ''0'') @ map hex_lower (drop 2 A)"
    unfolding r using l b(2) by simp
next
  show "build_calldata ''0x0000000000000000000000000000000000000001''
       = Inr (''0x919ddbf0'' @ replicate 63 (CHR ''0'') @ ''1'')"
    by code_simp
qed

theorem build_calldata_valid_witness:
  "valid_address ''0X52908400098527886E0F7030069857D2E4169EE7'' \<and>
   (\<exists>r. build_calldata ''0X52908400098527886E0F7030069857D2E4169EE7'' = Inr r \<and> length r = 74
      \<and> take 10 r = ''0x919ddbf0''
      \<and> drop 10 r = replicate 24 (CHR ''0'') @ ''52908400098527886e0f7030069857d2e4169ee7'')"
proof -
  have v: "valid_address ''0X52908400098527886E0F7030069857D2E4169EE7''"
    by code_simp
  have m: "map hex_lower ''52908400098527886E0F7030069857D2E4169EE7'' = ''52908400098527886e0f7030069857d2e4169ee7''"
    by code_simp
  show ?thesis
    using build_calldata_valid [of "''0X52908400098527886E0F7030069857D2E4169EE7''"] v m
    by simp
qed

text \<open>
  C2. \<open>build_calldata\<close> is a function of its argument alone, and it does not see
  letter case: on two strings that differ only in the letter case of their characters
  it gives the same result, the same calldata or the same error.
\<close>

theorem build_calldata_case_insensitive:
  "differ_only_in_case s t \<Longrightarrow> build_calldata s = build_calldata t"
  using differ_only_in_case_lower [of s t] build_calldata_lower [of s] build_calldata_lower [of t]
  by simp

theorem build_calldata_case_insensitive_witness:
  "differ_only_in_case ''0xABCDEF0123456789abcdefABCDEF0123456789ab''
                       ''0Xabcdef0123456789ABCDEFabcdef0123456789AB''
   \<and> build_calldata ''0xABCDEF0123456789abcdefABCDEF0123456789ab''
     = build_calldata ''0Xabcdef0123456789ABCDEFabcdef0123456789AB''"
proof -
  have d: "differ_only_in_case ''0xABCDEF0123456789abcdefABCDEF0123456789ab''
                       ''0Xabcdef0123456789ABCDEFabcdef0123456789AB''"
    by code_simp
  show ?thesis
    using d build_calldata_case_insensitive [OF d] by simp
qed

text \<open>
  C9. Whitespace around the address is stripped before validation: for every valid
  address \<open>A\<close> and all strings of whitespace \<open>w1\<close> and \<open>w2\<close>,
  \<open>build_calldata (w1 @ A @ w2)\<close> succeeds and equals \<open>build_calldata A\<close>.
\<close>

theorem build_calldata_strips_whitespace:
  assumes "valid_address A" "list_all isspace w1" "list_all isspace w2"
  shows "build_calldata (w1 @ A @ w2) = build_calldata A \<and> (\<exists>r. build_calldata A = Inr r)"
proof -
  have "strip (w1 @ A @ w2) = strip A"
    using assms by (simp add: strip_spaces valid_address_strip)
  then have "build_calldata (w1 @ A @ w2) = build_calldata A"
    by (simp add: build_calldata_eq)
  moreover have "\<exists>r. build_calldata A = Inr r"
    using assms(1) by (simp add: build_calldata_eq valid_address_strip valid_address_def)
  ultimately show ?thesis by simp
qed

theorem build_calldata_strips_whitespace_witness:
  "valid_address ''0x52908400098527886E0F7030069857D2E4169EE7''
   \<and> list_all isspace [CHR 0x20, CHR 0x09] \<and> list_all isspace [CHR 0x0D, CHR 0x0A]
   \<and> build_calldata ([CHR 0x20, CHR 0x09] @ ''0x52908400098527886E0F7030069857D2E4169EE7'' @ [CHR 0x0D, CHR 0x0A])
     = build_calldata ''0x52908400098527886E0F7030069857D2E4169EE7''
   \<and> build_calldata ''0x52908400098527886E0F7030069857D2E4169EE7''
     = Inr ''0x919ddbf000000000000000000000000052908400098527886e0f7030069857d2e4169ee7''"
proof -
  have v: "valid_address ''0x52908400098527886E0F7030069857D2E4169EE7''"
    by code_simp
  have a: "list_all isspace [CHR 0x20, CHR 0x09]"
    by code_simp
  have b: "list_all isspace [CHR 0x0D, CHR 0x0A]"
    by code_simp
  have c: "build_calldata ''0x52908400098527886E0F7030069857D2E4169EE7''
     = Inr ''0x919ddbf000000000000000000000000052908400098527886e0f7030069857d2e4169ee7''"
    by code_simp
  show ?thesis
    using build_calldata_strips_whitespace [OF v a b] v a b c by simp
qed

text \<open>
  C3, as the specification states it: a wallet string with one of the three defects
  would be rejected. An address followed by a space has a body of 41 characters, the
  last of them not hexadecimal, and is accepted, since the surrounding whitespace is
  stripped first.
\<close>

theorem malformed_accepted_counterexample:
  "malformed ''0x0000000000000000000000000000000000000001 ''
   \<and> build_calldata ''0x0000000000000000000000000000000000000001 ''
     = Inr ''0x919ddbf00000000000000000000000000000000000000000000000000000000000000001''"
  by code_simp

text \<open>
  C3, amended: for every wallet string that, once the surrounding whitespace is
  stripped, misses the prefix, or has a body after the prefix whose length is not 40,
  or has a character in the body that is not hexadecimal, \<open>build_calldata\<close> raises
  \<open>ValueError\<close>, and \<open>main\<close> prints the \<open>[error]\<close> line, makes no
  request and returns 1, which is the exit code.
\<close>

theorem invalid_address_exit:
  assumes "malformed (strip (wallet args))"
  shows "\<exists>msg. build_calldata (wallet args) = Inl (ValueError msg)
           \<and> main w args = \<lparr>status = Returned 1, stdout = [],
                             stderr = [cp ''[error] '' @ cp msg], requests = []\<rparr>
           \<and> exit_code w args = 1"
proof -
  have "\<exists>msg. build_calldata (wallet args) = Inl (ValueError msg)"
  proof (cases "has_prefix (strip (wallet args))")
    case False
    then show ?thesis
      by (simp add: build_calldata_eq)
  next
    case True
    with assms have "length (drop 2 (strip (wallet args))) \<noteq> 40
        \<or> \<not> list_all is_hex (drop 2 (strip (wallet args)))"
      unfolding malformed_def list_ex_iff list_all_iff by blast
    with True show ?thesis
      unfolding build_calldata_eq by (simp del: length_drop)
  qed
  then obtain msg where m: "build_calldata (wallet args) = Inl (ValueError msg)"
    by blast
  have "main w args = \<lparr>status = Returned 1, stdout = [],
                             stderr = [cp ''[error] '' @ cp msg], requests = []\<rparr>"
    by (simp add: main_def m)
  then show ?thesis
    using m by (simp add: exit_code_def)
qed

theorem invalid_address_exit_witness:
  "malformed (strip (wallet (query ''52908400098527886E0F7030069857D2E4169EE7'')))
   \<and> (\<exists>msg. build_calldata (wallet (query ''52908400098527886E0F7030069857D2E4169EE7''))
             = Inl (ValueError msg)
        \<and> main (answering JNull) (query ''52908400098527886E0F7030069857D2E4169EE7'')
             = \<lparr>status = Returned 1, stdout = [], stderr = [cp ''[error] '' @ cp msg],
                requests = []\<rparr>
        \<and> exit_code (answering JNull) (query ''52908400098527886E0F7030069857D2E4169EE7'') = 1)"
proof -
  have m: "malformed (strip (wallet (query ''52908400098527886E0F7030069857D2E4169EE7'')))"
    by code_simp
  show ?thesis
    using m invalid_address_exit [OF m, of "answering JNull"] by simp
qed

section \<open>The default resolver\<close>

text \<open>
  C7, as the specification states it: the body of \<open>DEFAULT_RESOLVER\<close> after the
  prefix would be 42 characters long. It is not.
\<close>

theorem DEFAULT_RESOLVER_not_42_counterexample:
  "length (drop 2 DEFAULT_RESOLVER) \<noteq> 42"
  by (simp add: DEFAULT_RESOLVER_def)


text \<open>
  C7, amended: \<open>DEFAULT_RESOLVER\<close> is 42 characters long with its prefix, and the
  body after \<open>0x\<close> is exactly 40 hexadecimal characters: a 20-byte address.
\<close>

theorem DEFAULT_RESOLVER_size:
  "length DEFAULT_RESOLVER = 42 \<and> take 2 DEFAULT_RESOLVER = ''0x''
   \<and> length (drop 2 DEFAULT_RESOLVER) = 40 \<and> list_all is_hex (drop 2 DEFAULT_RESOLVER)"
  by (simp add: DEFAULT_RESOLVER_def is_hex_def)

section \<open>The run of \<open>main\<close>\<close>

text \<open>
  \<open>build_calldata\<close> raises \<open>ValueError\<close> and nothing else, so the first
  \<open>try\<close> of \<open>main\<close> catches all it raises. Once the calldata is there,
  \<open>main\<close> is a case distinction on what \<open>post_json\<close> gives.
\<close>

lemma build_calldata_raises:
  "build_calldata s = Inl exc \<Longrightarrow> \<exists>msg. exc = ValueError msg"
  by (auto simp: build_calldata_def Let_def split: if_splits)

lemma main_invalid:
  "build_calldata (wallet args) = Inl (ValueError msg) \<Longrightarrow>
   main w args = \<lparr>status = Returned 1, stdout = [], stderr = [cp ''[error] '' @ cp msg], requests = []\<rparr>"
  by (simp add: main_def)

lemma echo_eq:
  "[print2 (8594 # cp '' RPC URL     :'') (cp (rpc_url args)),
    print2 (8594 # cp '' Resolver    :'') (cp (resolver args)),
    print2 (8594 # cp '' Wallet      :'') (cp (wallet args)),
    print2 (8594 # cp '' Calldata    :'') (cp calldata)] = echo_lines args calldata"
  by (simp add: echo_lines_def print2_def cp_def ord_def)

lemma main_valid:
  assumes "build_calldata (wallet args) = Inr calldata"
  shows "main w args =
    (let sent = [make_request w (rpc_url args) (JsonRpcEnvelope (resolver args) calldata) (insecure args)] in
     case post_json w (rpc_url args) (JsonRpcEnvelope (resolver args) calldata) (insecure args) of
             Inl (HTTPError code reason) \<Rightarrow>
               \<lparr>status = Returned 1, stdout = echo_lines args calldata,
                stderr = [cp ''[http error] '' @ cp (str_int code) @ [32] @ cp reason],
                requests = sent\<rparr>
           | Inl (URLError reason) \<Rightarrow>
               \<lparr>status = Returned 1, stdout = echo_lines args calldata,
                stderr = [cp ''[network error] '' @ cp reason],
                requests = sent\<rparr>
           | Inl exc \<Rightarrow>
               \<lparr>status = Raised exc, stdout = echo_lines args calldata, stderr = [], requests = sent\<rparr>
           | Inr response \<Rightarrow>
               (case py_in ''error'' response of
                  Inl exc \<Rightarrow>
                    \<lparr>status = Raised exc, stdout = echo_lines args calldata @ response_lines w response, stderr = [], requests = sent\<rparr>
                | Inr False \<Rightarrow>
                    \<lparr>status = Returned 0, stdout = echo_lines args calldata @ response_lines w response, stderr = [], requests = sent\<rparr>
                | Inr True \<Rightarrow>
                    (case py_getitem response ''error'' of
                       Inl exc \<Rightarrow>
                         \<lparr>status = Raised exc, stdout = echo_lines args calldata @ response_lines w response, stderr = [], requests = sent\<rparr>
                     | Inr err \<Rightarrow>
                         (case py_get err ''data'' of
                            Inl exc \<Rightarrow>
                              \<lparr>status = Raised exc, stdout = echo_lines args calldata @ response_lines w response, stderr = [],
                               requests = sent\<rparr>
                          | Inr (JString data) \<Rightarrow>
                              \<lparr>status = Returned 0,
                               stdout = echo_lines args calldata @ response_lines w response @ [decoded_line data],
                               stderr = [], requests = sent\<rparr>
                          | Inr data \<Rightarrow>
                              \<lparr>status = Returned 0, stdout = echo_lines args calldata @ response_lines w response, stderr = [],
                               requests = sent\<rparr>))))"
  unfolding main_def assms sum.case Let_def echo_eq
  by (simp only: JsonRpcEnvelope_def response_lines_def decoded_line_def append_assoc)


lemma py_in_error_JObject:
  "(key \<in> fst ` set kvs) = (map_of kvs key \<noteq> None)"
  by (simp add: map_of_eq_None_iff)

lemma main_requests:
  assumes "build_calldata (wallet args) = Inr calldata"
  shows "requests (main w args)
           = [make_request w (rpc_url args) (JsonRpcEnvelope (resolver args) calldata) (insecure args)]"
  unfolding main_valid [OF assms] Let_def
  by (simp split: sum.splits exn.splits bool.splits json.splits)

lemma main_response_status:
  assumes "build_calldata (wallet args) = Inr calldata"
    and "post_json w (rpc_url args) (JsonRpcEnvelope (resolver args) calldata) (insecure args) = Inr response"
  shows "status (main w args) = Returned 0 \<or> (\<exists>exc. status (main w args) = Raised exc)"
  unfolding main_valid [OF assms(1)] Let_def assms(2)
  by (simp split: sum.splits exn.splits bool.splits json.splits)

lemma main_shaped_status:
  assumes "build_calldata (wallet args) = Inr calldata"
    and "post_json w (rpc_url args) (JsonRpcEnvelope (resolver args) calldata) (insecure args) = Inr response"
    and "rpc_shaped response"
  shows "status (main w args) = Returned 0"
proof (cases response)
  case (JObject kvs)
  show ?thesis
  proof (cases "map_of kvs ''error''")
    case None
    with JObject show ?thesis
      by (simp add: main_valid [OF assms(1)] assms(2) py_in_error_JObject Let_def)
  next
    case (Some err)
    with JObject assms(3) show ?thesis
      by (cases err)
         (simp_all add: main_valid [OF assms(1)] assms(2) py_in_error_JObject Let_def
            split: option.splits json.splits)
  qed
qed (use assms(3) in simp_all)

text \<open>Runs on the mocked transports.\<close>

lemma calldata_one:
  "build_calldata (wallet (query ''0x0000000000000000000000000000000000000001''))
     = Inr ''0x919ddbf00000000000000000000000000000000000000000000000000000000000000001''"
  by code_simp

lemma garbled_body:
  "urlopen garbled (make_request garbled
      (rpc_url (query ''0x0000000000000000000000000000000000000001''))
      (JsonRpcEnvelope (resolver (query ''0x0000000000000000000000000000000000000001''))
         ''0x919ddbf00000000000000000000000000000000000000000000000000000000000000001'')
      (insecure (query ''0x0000000000000000000000000000000000000001''))) = Inr ''<html>''"
  by (simp add: garbled_def)

lemma garbled_loads: "json_loads garbled ''<html>'' = None"
  by (simp add: garbled_def)

lemma answering_post:
  "post_json (answering v) url payload flag = Inr v"
  by (simp add: post_json_def answering_def)

subsection \<open>The request\<close>

text \<open>
  C6. For every valid wallet and every resolver string, \<open>main\<close> hands exactly one
  request to the transport, and its body is the serialisation of the object
  \<open>{jsonrpc: "2.0", id: 1, method: "eth_call", params: [{to: resolver, data:
  calldata}, "latest"]}\<close>, with the calldata that \<open>build_calldata\<close> returned for
  the wallet. The object is a value: it is built once and nothing changes it.
\<close>

theorem main_sends_envelope:
  assumes "build_calldata (wallet args) = Inr calldata"
  shows "requests (main w args) =
           [\<lparr>req_url = rpc_url args,
             req_data = json_dumps w None (JsonRpcEnvelope (resolver args) calldata),
             req_headers = [(''Content-Type'', ''application/json'')],
             req_timeout = 60,
             req_unverified = insecure args\<rparr>]"
  using main_requests [OF assms, of w] by (simp add: make_request_def)

theorem main_sends_envelope_witness:
  "build_calldata (wallet (query ''0x0000000000000000000000000000000000000001''))
     = Inr ''0x919ddbf00000000000000000000000000000000000000000000000000000000000000001''
   \<and> requests (main (answering JNull) (query ''0x0000000000000000000000000000000000000001'')) =
       [\<lparr>req_url = ''https://rpc.example'',
         req_data = json_dumps (answering JNull) None
           (JsonRpcEnvelope ''0x394Ce45678e0019c0045194a561E2bEd0FCc6Cf0''
              ''0x919ddbf00000000000000000000000000000000000000000000000000000000000000001''),
         req_headers = [(''Content-Type'', ''application/json'')],
         req_timeout = 60,
         req_unverified = False\<rparr>]"
  using main_sends_envelope [OF calldata_one, of "answering JNull"] calldata_one
  by (simp add: query_def resolver_def DEFAULT_RESOLVER_def)

text \<open>
  C10. The resolver is never validated: whatever string \<open>r\<close> is given as
  \<open>--resolver\<close>, a run with a valid wallet sends the request with \<open>r\<close> as
  its \<open>to\<close> member, unchanged; and the \<open>[error]\<close> line of a failed
  validation is printed exactly when \<open>build_calldata\<close> rejects the wallet, whatever
  \<open>r\<close> is.
\<close>

theorem resolver_not_validated:
  "(build_calldata (wallet args) = Inr calldata \<longrightarrow>
      requests (main w (args\<lparr>resolver_flag := Some r\<rparr>)) =
        [make_request w (rpc_url args)
           (JObject
              [(''jsonrpc'', JString ''2.0''),
               (''id'', JInt 1),
               (''method'', JString ''eth_call''),
               (''params'', JArray
                  [JObject [(''to'', JString r), (''data'', JString calldata)],
                   JString ''latest''])])
           (insecure args)])
   \<and> ((\<exists>msg. stderr (main w (args\<lparr>resolver_flag := Some r\<rparr>)) = [cp ''[error] '' @ cp msg])
        \<longleftrightarrow> (\<exists>msg. build_calldata (wallet args) = Inl (ValueError msg)))"
proof (intro conjI impI)
  let ?args = "args\<lparr>resolver_flag := Some r\<rparr>"
  assume "build_calldata (wallet args) = Inr calldata"
  then have "build_calldata (wallet ?args) = Inr calldata"
    by simp
  from main_requests [OF this, of w]
  show "requests (main w ?args) =
        [make_request w (rpc_url args)
           (JObject
              [(''jsonrpc'', JString ''2.0''),
               (''id'', JInt 1),
               (''method'', JString ''eth_call''),
               (''params'', JArray
                  [JObject [(''to'', JString r), (''data'', JString calldata)],
                   JString ''latest''])])
           (insecure args)]"
    by (simp add: JsonRpcEnvelope_def resolver_def)
next
  let ?args = "args\<lparr>resolver_flag := Some r\<rparr>"
  show "(\<exists>msg. stderr (main w ?args) = [cp ''[error] '' @ cp msg])
        \<longleftrightarrow> (\<exists>msg. build_calldata (wallet args) = Inl (ValueError msg))"
  proof (cases "build_calldata (wallet args)")
    case (Inl exc)
    then obtain msg where e: "exc = ValueError msg"
      using build_calldata_raises by blast
    with Inl have "build_calldata (wallet ?args) = Inl (ValueError msg)"
      by simp
    from main_invalid [OF this, of w] Inl e show ?thesis
      by auto
  next
    case (Inr cd)
    then have v: "build_calldata (wallet ?args) = Inr cd"
      by simp
    have "stderr (main w ?args) \<noteq> [cp ''[error] '' @ cp msg]" for msg
      unfolding main_valid [OF v] Let_def
      by (simp add: cp_def ord_def split: sum.splits exn.splits bool.splits json.splits)
    with Inr show ?thesis
      by simp
  qed
qed

theorem resolver_not_validated_witness:
  "build_calldata (wallet (query ''0x0000000000000000000000000000000000000001''))
     = Inr ''0x919ddbf00000000000000000000000000000000000000000000000000000000000000001''
   \<and> requests (main (answering JNull)
        ((query ''0x0000000000000000000000000000000000000001'')\<lparr>resolver_flag := Some ''not an address''\<rparr>)) =
        [make_request (answering JNull) ''https://rpc.example''
           (JObject
              [(''jsonrpc'', JString ''2.0''),
               (''id'', JInt 1),
               (''method'', JString ''eth_call''),
               (''params'', JArray
                  [JObject [(''to'', JString ''not an address''),
                            (''data'', JString ''0x919ddbf00000000000000000000000000000000000000000000000000000000000000001'')],
                   JString ''latest''])])
           False]"
  using resolver_not_validated [of "query ''0x0000000000000000000000000000000000000001''"
      "''0x919ddbf00000000000000000000000000000000000000000000000000000000000000001''"
      "answering JNull" "''not an address''"] calldata_one
  by (simp add: query_def)

subsection \<open>The response\<close>

text \<open>
  C8. When the body of the HTTP response is not JSON, \<open>post_json\<close> raises
  \<open>JSONDecodeError\<close>; neither handler of \<open>main\<close> catches it, so it leaves
  \<open>main\<close>, which prints no diagnostic line and returns nothing.
\<close>

theorem malformed_json_propagates:
  assumes "build_calldata (wallet args) = Inr calldata"
    and "urlopen w (make_request w (rpc_url args) (JsonRpcEnvelope (resolver args) calldata)
           (insecure args)) = Inr body"
    and "json_loads w body = None"
  shows "post_json w (rpc_url args) (JsonRpcEnvelope (resolver args) calldata) (insecure args)
           = Inl JSONDecodeError
         \<and> status (main w args) = Raised JSONDecodeError
         \<and> stderr (main w args) = []"
proof -
  have p: "post_json w (rpc_url args) (JsonRpcEnvelope (resolver args) calldata) (insecure args)
           = Inl JSONDecodeError"
    by (simp add: post_json_def assms(2,3))
  then show ?thesis
    by (simp add: main_valid [OF assms(1)])
qed

theorem malformed_json_propagates_witness:
  "build_calldata (wallet (query ''0x0000000000000000000000000000000000000001''))
     = Inr ''0x919ddbf00000000000000000000000000000000000000000000000000000000000000001''
   \<and> json_loads garbled ''<html>'' = None
   \<and> status (main garbled (query ''0x0000000000000000000000000000000000000001''))
       = Raised JSONDecodeError
   \<and> stderr (main garbled (query ''0x0000000000000000000000000000000000000001'')) = []"
  using malformed_json_propagates [OF calldata_one garbled_body garbled_loads]
    calldata_one garbled_loads
  by simp

text \<open>
  C5. After a response arrived, \<open>main\<close> prints the four echo lines, the heading
  and the dumped response, and then one more line, \<open>Decoded error data:\<close> with the
  string, exactly when the response is an object whose \<open>error\<close> member has a
  string as its \<open>data\<close> member; in every other case, also when an exception
  leaves \<open>main\<close>, nothing more is printed to standard output.
\<close>

theorem decoded_error_data_line:
  assumes "build_calldata (wallet args) = Inr calldata"
    and "post_json w (rpc_url args) (JsonRpcEnvelope (resolver args) calldata) (insecure args) = Inr response"
  shows "stdout (main w args) = echo_lines args calldata @ response_lines w response
           @ (case error_data response of Some s \<Rightarrow> [decoded_line s] | None \<Rightarrow> [])"
proof (cases response)
  case (JObject kvs)
  show ?thesis
  proof (cases "map_of kvs ''error''")
    case None
    with JObject show ?thesis
      by (simp add: main_valid [OF assms(1)] assms(2) py_in_error_JObject Let_def)
  next
    case (Some err)
    with JObject show ?thesis
      by (cases err)
         (simp_all add: main_valid [OF assms(1)] assms(2) py_in_error_JObject Let_def
            split: option.splits json.splits)
  qed
qed (simp_all add: main_valid [OF assms(1)] assms(2) Let_def split: bool.splits)

theorem decoded_error_data_line_witness:
  "build_calldata (wallet (query ''0x0000000000000000000000000000000000000001''))
     = Inr ''0x919ddbf00000000000000000000000000000000000000000000000000000000000000001''
   \<and> stdout (main (answering (JObject [(''jsonrpc'', JString ''2.0''), (''id'', JInt 1),
         (''error'', JObject [(''code'', JInt 3), (''message'', JString ''execution reverted''),
                              (''data'', JString ''0xabc123'')])]))
       (query ''0x0000000000000000000000000000000000000001''))
     = echo_lines (query ''0x0000000000000000000000000000000000000001'')
         ''0x919ddbf00000000000000000000000000000000000000000000000000000000000000001''
       @ response_lines (answering (JObject [(''jsonrpc'', JString ''2.0''), (''id'', JInt 1),
         (''error'', JObject [(''code'', JInt 3), (''message'', JString ''execution reverted''),
                              (''data'', JString ''0xabc123'')])]))
           (JObject [(''jsonrpc'', JString ''2.0''), (''id'', JInt 1),
         (''error'', JObject [(''code'', JInt 3), (''message'', JString ''execution reverted''),
                              (''data'', JString ''0xabc123'')])])
       @ [10 # cp ''Decoded error data: '' @ cp ''0xabc123'']"
  using decoded_error_data_line [OF calldata_one answering_post] calldata_one
  by (simp add: decoded_line_def)

subsection \<open>The exit status\<close>

text \<open>
  C4, as the specification states it: \<open>main\<close> would return 0 after every completed
  round trip. An endpoint that answers \<open>{"error": "execution reverted"}\<close> completes
  the round trip, and \<open>err.get\<close> on the string raises \<open>AttributeError\<close>.
\<close>

theorem rpc_error_string_counterexample:
  "build_calldata (wallet (query ''0x0000000000000000000000000000000000000001''))
     = Inr ''0x919ddbf00000000000000000000000000000000000000000000000000000000000000001''
   \<and> post_json (answering (JObject [(''error'', JString ''execution reverted'')]))
        (rpc_url (query ''0x0000000000000000000000000000000000000001''))
        (JsonRpcEnvelope (resolver (query ''0x0000000000000000000000000000000000000001''))
           ''0x919ddbf00000000000000000000000000000000000000000000000000000000000000001'')
        (insecure (query ''0x0000000000000000000000000000000000000001''))
      = Inr (JObject [(''error'', JString ''execution reverted'')])
   \<and> status (main (answering (JObject [(''error'', JString ''execution reverted'')]))
        (query ''0x0000000000000000000000000000000000000001'')) = Raised AttributeError"
  by (simp add: calldata_one answering_post main_valid [OF calldata_one])

text \<open>
  C4, amended: \<open>main\<close> returns 0 after every completed round trip whose response is
  a JSON object in which \<open>error\<close> is absent or is itself an object (an RPC-level
  error is shown, not treated as a failure); and it returns 1 exactly when the address
  validation fails, when \<open>post_json\<close> raises \<open>HTTPError\<close>, or when it raises
  \<open>URLError\<close>.
\<close>

theorem main_exit_status:
  "(build_calldata (wallet args) = Inr calldata
      \<and> post_json w (rpc_url args) (JsonRpcEnvelope (resolver args) calldata) (insecure args)
           = Inr response
      \<and> rpc_shaped response
    \<longrightarrow> status (main w args) = Returned 0)
   \<and> (status (main w args) = Returned 1 \<longleftrightarrow>
        (\<exists>msg. build_calldata (wallet args) = Inl (ValueError msg))
      \<or> (\<exists>cd code reason. build_calldata (wallet args) = Inr cd
            \<and> post_json w (rpc_url args) (JsonRpcEnvelope (resolver args) cd) (insecure args)
                = Inl (HTTPError code reason))
      \<or> (\<exists>cd reason. build_calldata (wallet args) = Inr cd
            \<and> post_json w (rpc_url args) (JsonRpcEnvelope (resolver args) cd) (insecure args)
                = Inl (URLError reason)))"
proof (intro conjI impI)
  assume "build_calldata (wallet args) = Inr calldata
      \<and> post_json w (rpc_url args) (JsonRpcEnvelope (resolver args) calldata) (insecure args)
           = Inr response
      \<and> rpc_shaped response"
  then show "status (main w args) = Returned 0"
    using main_shaped_status by blast
next
  show "status (main w args) = Returned 1 \<longleftrightarrow>
        (\<exists>msg. build_calldata (wallet args) = Inl (ValueError msg))
      \<or> (\<exists>cd code reason. build_calldata (wallet args) = Inr cd
            \<and> post_json w (rpc_url args) (JsonRpcEnvelope (resolver args) cd) (insecure args)
                = Inl (HTTPError code reason))
      \<or> (\<exists>cd reason. build_calldata (wallet args) = Inr cd
            \<and> post_json w (rpc_url args) (JsonRpcEnvelope (resolver args) cd) (insecure args)
                = Inl (URLError reason))"
  proof (cases "build_calldata (wallet args)")
    case (Inl exc)
    then obtain msg where "exc = ValueError msg"
      using build_calldata_raises by blast
    with Inl show ?thesis
      by (simp add: main_invalid)
  next
    case (Inr cd)
    show ?thesis
    proof (cases "post_json w (rpc_url args) (JsonRpcEnvelope (resolver args) cd) (insecure args)")
      case (Inl exc)
      with Inr show ?thesis
        by (cases exc) (simp_all add: main_valid [OF Inr])
    next
      case r: (Inr response)
      from main_response_status [OF Inr r] have "status (main w args) \<noteq> Returned 1"
        by auto
      with Inr r show ?thesis
        by simp
    qed
  qed
qed

theorem main_exit_status_witness:
  "build_calldata (wallet (query ''0x0000000000000000000000000000000000000001''))
     = Inr ''0x919ddbf00000000000000000000000000000000000000000000000000000000000000001''
   \<and> post_json (answering (JObject [(''jsonrpc'', JString ''2.0''), (''id'', JInt 1),
         (''error'', JObject [(''code'', JInt 3), (''message'', JString ''execution reverted'')])]))
        (rpc_url (query ''0x0000000000000000000000000000000000000001''))
        (JsonRpcEnvelope (resolver (query ''0x0000000000000000000000000000000000000001''))
           ''0x919ddbf00000000000000000000000000000000000000000000000000000000000000001'')
        (insecure (query ''0x0000000000000000000000000000000000000001''))
      = Inr (JObject [(''jsonrpc'', JString ''2.0''), (''id'', JInt 1),
         (''error'', JObject [(''code'', JInt 3), (''message'', JString ''execution reverted'')])])
   \<and> rpc_shaped (JObject [(''jsonrpc'', JString ''2.0''), (''id'', JInt 1),
         (''error'', JObject [(''code'', JInt 3), (''message'', JString ''execution reverted'')])])
   \<and> status (main (answering (JObject [(''jsonrpc'', JString ''2.0''), (''id'', JInt 1),
         (''error'', JObject [(''code'', JInt 3), (''message'', JString ''execution reverted'')])]))
        (query ''0x0000000000000000000000000000000000000001'')) = Returned 0"
proof -
  have s: "rpc_shaped (JObject [(''jsonrpc'', JString ''2.0''), (''id'', JInt 1),
         (''error'', JObject [(''code'', JInt 3), (''message'', JString ''execution reverted'')])])"
    by simp
  show ?thesis
    using main_exit_status [of "query ''0x0000000000000000000000000000000000000001''"
        "''0x919ddbf00000000000000000000000000000000000000000000000000000000000000001''"
        "answering (JObject [(''jsonrpc'', JString ''2.0''), (''id'', JInt 1),
         (''error'', JObject [(''code'', JInt 3), (''message'', JString ''execution reverted'')])])"
        "JObject [(''jsonrpc'', JString ''2.0''), (''id'', JInt 1),
         (''error'', JObject [(''code'', JInt 3), (''message'', JString ''execution reverted'')])]"]
      calldata_one s
    by (simp add: answering_post)
qed

end
